theory Spec2Isabelle
  imports Main "HOL-Library.Sublist" "HOL-Library.AList"
begin

section \<open>Values and schemas\<close>

text \<open>
  Request parts, response bodies and thrown errors are JavaScript values of type
  \<^verbatim>\<open>unknown\<close>. They are modelled as trees: \<open>undefined\<close>, \<open>null\<close>, booleans,
  integral numbers, strings, arrays, and objects as property lists in key order.
\<close>

datatype jsvalue =
    JUndefined
  | JNull
  | JBool bool
  | JNum int
  | JStr string
  | JArr "jsvalue list"
  | JObj "(string \<times> jsvalue) list"

text \<open>
  A \<^verbatim>\<open>z.ZodType\<close> is used through \<^verbatim>\<open>parse\<close> only: it returns the parsed output or throws.
  \<open>Inl e\<close> is the thrown error \<open>e\<close>, \<open>Inr v\<close> the returned output \<open>v\<close>.
\<close>

type_synonym schema = "jsvalue \<Rightarrow> jsvalue + jsvalue"

text \<open>
  The router imports \<^verbatim>\<open>z\<close> from the zod package and builds two schemas with it:
  \<^verbatim>\<open>z.object({})\<close> and \<^verbatim>\<open>z.object({}).optional()\<close>. The package is not part of the
  repository, so the middleware below takes the imported module as a parameter \<open>z\<close>.
\<close>

record Zod =
  z_object_empty :: schema
  z_optional :: "schema \<Rightarrow> schema"

text \<open>
  The zod package as published: an object schema built by \<^verbatim>\<open>z.object\<close> accepts any
  non-array object and, by default, strips the keys its shape does not declare (it rejects
  them only after \<^verbatim>\<open>.strict()\<close>); \<^verbatim>\<open>.optional()\<close> lets \<open>undefined\<close> through and
  otherwise parses with the inner schema.
\<close>

definition zodError :: jsvalue where
  "zodError = JObj [(''name'', JStr ''ZodError'')]"

definition zod :: Zod where
  "zod = \<lparr> z_object_empty = (\<lambda>v. case v of JObj kvs \<Rightarrow> Inr (JObj []) | _ \<Rightarrow> Inl zodError),
           z_optional = (\<lambda>s v. if v = JUndefined then Inr JUndefined else s v) \<rparr>"

section \<open>Route table (core/index.ts)\<close>

text \<open>\<^verbatim>\<open>METHODS = ["get", "post", "put", "delete", "patch"]\<close>\<close>

datatype Method = GET | POST | PUT | DELETE | PATCH

definition METHODS :: "Method list" where
  "METHODS = [GET, POST, PUT, DELETE, PATCH]"

text \<open>
  \<^verbatim>\<open>RouteDescription.request\<close>: five slots, each a schema or \<open>undefined\<close> (\<open>None\<close>).
\<close>

record RequestSchemas =
  request_header :: "schema option"
  request_cookie :: "schema option"
  request_path :: "schema option"
  request_query :: "schema option"
  request_body :: "schema option"

text \<open>
  \<^verbatim>\<open>response: Record<number | "default", z.ZodType | undefined>\<close>: a key is a status
  code or the string \<^verbatim>\<open>"default"\<close>; a missing key and a key bound to \<open>undefined\<close> both
  read as \<open>None\<close>.
\<close>

datatype ResponseKey = Code int | Default

record RouteDescription =
  request :: RequestSchemas
  response :: "ResponseKey \<Rightarrow> schema option"

text \<open>\<^verbatim>\<open>Api = Record<string, { [M in Method]?: RouteDescription }>\<close>\<close>

type_synonym Api = "string \<Rightarrow> (Method \<Rightarrow> RouteDescription option) option"

section \<open>Express request, response and middleware\<close>

text \<open>
  The override of \<^verbatim>\<open>res.json\<close> is a closure over \<^verbatim>\<open>routeDescription\<close> and the
  method it replaces (\<^verbatim>\<open>originalJson\<close>). \<open>ExpressJson\<close> is Express's own method.
\<close>

datatype JsonMethod = ExpressJson | ValidatedJson RouteDescription JsonMethod

record Request =
  req_params :: jsvalue
  req_query :: jsvalue
  req_body :: jsvalue
  req_headers :: jsvalue
  req_cookies :: jsvalue

text \<open>
  \<open>emitted\<close> lists what Express's own \<^verbatim>\<open>res.json\<close> has sent: the status code at the
  time of the call and the body.
\<close>

record Response =
  statusCode :: int
  json :: JsonMethod
  emitted :: "(int \<times> jsvalue) list"

text \<open>
  The trace is a ghost field: it records the schema parses the request validator makes and
  the calls of \<^verbatim>\<open>next\<close> and of \<^verbatim>\<open>config.errorHandler\<close>. User code sees the request and
  the response only.
\<close>

datatype slot = HeaderSlot | CookieSlot | PathSlot | QuerySlot | BodySlot

datatype event = SchemaParse slot | NextCalled | ErrorHandlerCalled jsvalue

record ctx =
  req :: Request
  res :: Response
  trace :: "event list"

text \<open>
  The router's \<^verbatim>\<open>config\<close>. \<^verbatim>\<open>errorHandler: (err, req, res) => void\<close> may mutate the
  request and the response it is given.
\<close>

record RouterConfig =
  attachResponseValidator :: bool
  skipRequestBodyValidation :: bool
  errorHandler :: "jsvalue \<Rightarrow> Request \<times> Response \<Rightarrow> Request \<times> Response"

text \<open>
  A middleware registered on the router is one of the two closures the router builds, or a
  handler of the user: a function of the request and the response that says whether it
  called \<^verbatim>\<open>next\<close>.
\<close>

datatype handler =
    RequestValidator RouterConfig RouteDescription
  | ResponseValidator RouteDescription
  | UserHandler "Request \<times> Response \<Rightarrow> (Request \<times> Response) \<times> bool"

subsection \<open>The response API used by handlers\<close>

text \<open>\<^verbatim>\<open>res.status(code)\<close> sets \<^verbatim>\<open>statusCode\<close>.\<close>

definition res_status :: "int \<Rightarrow> Response \<Rightarrow> Response" where
  "res_status code rs = rs\<lparr>statusCode := code\<rparr>"

text \<open>The fixed body of the catch branch of the override.\<close>

definition outOfSpecBody :: jsvalue where
  "outOfSpecBody = JObj [(''status'', JStr ''Internal server error''),
                         (''message'', JStr ''Server generated response is out of API spec'')]"

text \<open>\<^verbatim>\<open>a ?? b\<close>\<close>

fun nullish :: "jsvalue \<Rightarrow> bool" where
  "nullish JUndefined = True"
| "nullish JNull = True"
| "nullish _ = False"

definition coalesce :: "jsvalue \<Rightarrow> jsvalue \<Rightarrow> jsvalue" where
  "coalesce a b = (if nullish a then b else a)"

text \<open>
  Calling a \<^verbatim>\<open>json\<close> method on a response with a body. Express's own method sends the
  body under the current status code. The override (part_002, lines 95-106):
  \<^verbatim>\<open>
  try {
      const parsedBody = routeDescription.response[res.statusCode]?.parse(body) ?? body;
      return originalJson.call(this, parsedBody);
  } catch {
      res.status(500);
      return originalJson.call(this, { status: ..., message: ... });
  }
  \<close>
  Bodies are serialisable values, so the original method itself does not throw.
\<close>

fun callJson :: "JsonMethod \<Rightarrow> jsvalue \<Rightarrow> Response \<Rightarrow> Response" where
  "callJson ExpressJson body rs = rs\<lparr>emitted := emitted rs @ [(statusCode rs, body)]\<rparr>"
| "callJson (ValidatedJson routeDescription originalJson) body rs =
     (case response routeDescription (Code (statusCode rs)) of
        None \<Rightarrow> callJson originalJson (coalesce JUndefined body) rs
      | Some s \<Rightarrow>
          (case s body of
             Inr parsed \<Rightarrow> callJson originalJson (coalesce parsed body) rs
           | Inl err \<Rightarrow> callJson originalJson outOfSpecBody (res_status 500 rs)))"

text \<open>\<^verbatim>\<open>res.json(body)\<close>: the method currently installed on the response.\<close>

definition res_json :: "jsvalue \<Rightarrow> Response \<Rightarrow> Response" where
  "res_json body rs = callJson (json rs) body rs"

subsection \<open>The request validator (part_002, lines 52-86)\<close>

text \<open>One \<^verbatim>\<open>schema.parse(input)\<close> made by the request validator, recorded in the trace.\<close>

definition parse :: "slot \<Rightarrow> schema \<Rightarrow> jsvalue \<Rightarrow> ctx \<Rightarrow> (jsvalue + jsvalue) \<times> ctx" where
  "parse sl s v c = (s v, c\<lparr>trace := trace c @ [SchemaParse sl]\<rparr>)"

text \<open>
  The body of the \<^verbatim>\<open>try\<close> block up to \<^verbatim>\<open>return next()\<close>. The result is the exception
  that left the block, if any, and the context as the block left it: an assignment made
  before a later parse throws stays made.
\<close>

definition tryBlock :: "Zod \<Rightarrow> RouterConfig \<Rightarrow> RouteDescription \<Rightarrow> ctx \<Rightarrow> jsvalue option \<times> ctx" where
  "tryBlock z config routeDescription c0 =
     (case parse PathSlot
             (case request_path (request routeDescription) of
                Some s \<Rightarrow> s
              | None \<Rightarrow> z_object_empty z)
             (req_params (req c0)) c0 of
        (Inl err, c1) \<Rightarrow> (Some err, c1)
      | (Inr p, c1) \<Rightarrow>
          (let c1 = c1\<lparr>req := (req c1)\<lparr>req_params := p\<rparr>\<rparr> in
           case parse QuerySlot
                  (case request_query (request routeDescription) of
                     Some s \<Rightarrow> s
                   | None \<Rightarrow> z_object_empty z)
                  (req_query (req c1)) c1 of
             (Inl err, c2) \<Rightarrow> (Some err, c2)
           | (Inr q, c2) \<Rightarrow>
               (let c2 = c2\<lparr>req := (req c2)\<lparr>req_query := q\<rparr>\<rparr> in
                if \<not> skipRequestBodyValidation config then
                  (case parse BodySlot
                          (case request_body (request routeDescription) of
                             Some s \<Rightarrow> s
                           | None \<Rightarrow> z_optional z (z_object_empty z))
                          (req_body (req c2)) c2 of
                     (Inl err, c3) \<Rightarrow> (Some err, c3)
                   | (Inr b, c3) \<Rightarrow> (None, c3\<lparr>req := (req c3)\<lparr>req_body := b\<rparr>\<rparr>))
                else (None, c2))))"

text \<open>\<^verbatim>\<open>next()\<close>: control passes to the next middleware of the route.\<close>

definition callNext :: "ctx \<Rightarrow> ctx \<times> bool" where
  "callNext c = (c\<lparr>trace := trace c @ [NextCalled]\<rparr>, True)"

text \<open>\<^verbatim>\<open>config.errorHandler(err, req, res)\<close>\<close>

definition callErrorHandler :: "RouterConfig \<Rightarrow> jsvalue \<Rightarrow> ctx \<Rightarrow> ctx" where
  "callErrorHandler config err c =
     (case errorHandler config err (req c, res c) of
        (rq, rs) \<Rightarrow> c\<lparr>req := rq, res := rs, trace := trace c @ [ErrorHandlerCalled err]\<rparr>)"

text \<open>
  The middleware: the \<^verbatim>\<open>try\<close> block ends in \<^verbatim>\<open>return next()\<close>, the \<^verbatim>\<open>catch\<close> block
  calls the error handler and returns. The boolean says whether \<^verbatim>\<open>next\<close> was called.
\<close>

definition requestValidator :: "Zod \<Rightarrow> RouterConfig \<Rightarrow> RouteDescription \<Rightarrow> ctx \<Rightarrow> ctx \<times> bool" where
  "requestValidator z config routeDescription c =
     (case tryBlock z config routeDescription c of
        (None, c') \<Rightarrow> callNext c'
      | (Some err, c') \<Rightarrow> (callErrorHandler config err c', False))"

subsection \<open>The response validator (part_002, lines 90-109)\<close>

definition responseValidator :: "RouteDescription \<Rightarrow> ctx \<Rightarrow> ctx \<times> bool" where
  "responseValidator routeDescription c =
     (let originalJson = json (res c) in
      callNext (c\<lparr>res := (res c)\<lparr>json := ValidatedJson routeDescription originalJson\<rparr>\<rparr>))"

subsection \<open>Running a route's middleware\<close>

fun runHandler :: "Zod \<Rightarrow> handler \<Rightarrow> ctx \<Rightarrow> ctx \<times> bool" where
  "runHandler z (RequestValidator config routeDescription) c = requestValidator z config routeDescription c"
| "runHandler z (ResponseValidator routeDescription) c = responseValidator routeDescription c"
| "runHandler z (UserHandler f) c =
     (case f (req c, res c) of
        ((rq, rs), True) \<Rightarrow> callNext (c\<lparr>req := rq, res := rs\<rparr>)
      | ((rq, rs), False) \<Rightarrow> (c\<lparr>req := rq, res := rs\<rparr>, False))"

text \<open>
  Express runs the handlers of a route in registration order; a handler that returns
  without calling \<^verbatim>\<open>next\<close> ends the chain.
\<close>

fun dispatch :: "Zod \<Rightarrow> handler list \<Rightarrow> ctx \<Rightarrow> ctx" where
  "dispatch z [] c = c"
| "dispatch z (h # hs) c =
     (case runHandler z h c of
        (c', True) \<Rightarrow> dispatch z hs c'
      | (c', False) \<Rightarrow> c')"

section \<open>Route registration (part_002, lines 34-119)\<close>

text \<open>
  An argument of a verb method of an Express router is a handler or an array of
  arguments; Express flattens the arguments into the route's handler stack.
\<close>

datatype arg = Fn handler | Arr "arg list"

fun flatten_arg :: "arg \<Rightarrow> handler list" where
  "flatten_arg (Fn h) = [h]"
| "flatten_arg (Arr as) = concat (map flatten_arg as)"

definition flatten :: "arg list \<Rightarrow> handler list" where
  "flatten as = concat (map flatten_arg as)"

text \<open>The routes registered on the underlying \<^verbatim>\<open>express.Router()\<close>, in order.\<close>

type_synonym router = "(Method \<times> string \<times> handler list) list"

text \<open>\<^verbatim>\<open>router[method].bind(router)\<close>: Express's own registration.\<close>

definition originalHandlerRegistrar :: "Method \<Rightarrow> string \<Rightarrow> arg list \<Rightarrow> router \<Rightarrow> router" where
  "originalHandlerRegistrar m pathArg as r = r @ [(m, pathArg, flatten as)]"

text \<open>\<^verbatim>\<open>apiDef[path]?.[method] ?? undefined\<close>\<close>

definition lookupRoute :: "Api \<Rightarrow> string \<Rightarrow> Method \<Rightarrow> RouteDescription option" where
  "lookupRoute apiDef pathArg m = (case apiDef pathArg of None \<Rightarrow> None | Some ms \<Rightarrow> ms m)"

text \<open>
  The arguments the overriding verb method hands to the original registrar. The rest
  parameter \<^verbatim>\<open>handlers\<close> is passed on as one array argument.
\<close>

definition registrarArgs :: "Api \<Rightarrow> RouterConfig \<Rightarrow> Method \<Rightarrow> string \<Rightarrow> arg list \<Rightarrow> arg list" where
  "registrarArgs apiDef config m pathArg handlers =
     (case lookupRoute apiDef pathArg m of
        None \<Rightarrow> [Arr handlers]
      | Some routeDescription \<Rightarrow>
          if attachResponseValidator config
          then [Fn (RequestValidator config routeDescription), Fn (ResponseValidator routeDescription), Arr handlers]
          else [Fn (RequestValidator config routeDescription), Arr handlers])"

text \<open>\<^verbatim>\<open>router[method] = (path, ...handlers) => { ... }\<close>, for each method of \<open>METHODS\<close>.\<close>

definition routerMethod :: "Api \<Rightarrow> RouterConfig \<Rightarrow> Method \<Rightarrow> string \<Rightarrow> arg list \<Rightarrow> router \<Rightarrow> router" where
  "routerMethod apiDef config m pathArg handlers r =
     originalHandlerRegistrar m pathArg (registrarArgs apiDef config m pathArg handlers) r"

section \<open>Request builder (client/index.ts)\<close>

subsection \<open>\<^verbatim>\<open>String.prototype.replace\<close> with a string pattern\<close>

text \<open>\<^verbatim>\<open>str.indexOf(searchString)\<close>: the position of the first occurrence, if any.\<close>

fun indexOf :: "string \<Rightarrow> string \<Rightarrow> nat option" where
  "indexOf [] searchString = (if searchString = [] then Some 0 else None)"
| "indexOf (c # cs) searchString =
     (if prefix searchString (c # cs) then Some 0
      else map_option Suc (indexOf cs searchString))"

text \<open>
  The replacement text of \<^verbatim>\<open>replace\<close> is a template: \<open>$$\<close> stands for a dollar sign,
  \<open>$&\<close> for the matched text, dollar and grave accent for the text before the match, dollar
  and apostrophe for the text after it. With a string pattern there are no capture groups,
  so every other dollar sign stands for itself.
\<close>

fun getSubstitution :: "string \<Rightarrow> string \<Rightarrow> nat \<Rightarrow> string \<Rightarrow> string" where
  "getSubstitution matched str pos [] = []"
| "getSubstitution matched str pos [c] = [c]"
| "getSubstitution matched str pos (c # d # t) =
     (if c = CHR ''$'' then
        (if d = CHR ''$'' then CHR ''$'' # getSubstitution matched str pos t
         else if d = CHR ''&'' then matched @ getSubstitution matched str pos t
         else if d = CHR 0x60 then take pos str @ getSubstitution matched str pos t
         else if d = CHR 0x27 then drop (pos + length matched) str @ getSubstitution matched str pos t
         else c # getSubstitution matched str pos (d # t))
      else c # getSubstitution matched str pos (d # t))"

text \<open>
  \<^verbatim>\<open>str.replace(searchString, replaceValue)\<close> with both arguments strings: only the first
  occurrence of \<open>searchString\<close> is replaced.
\<close>

definition jsReplace :: "string \<Rightarrow> string \<Rightarrow> string \<Rightarrow> string" where
  "jsReplace str searchString replaceValue =
     (case indexOf str searchString of
        None \<Rightarrow> str
      | Some pos \<Rightarrow>
          take pos str @ getSubstitution searchString str pos replaceValue
            @ drop (pos + length searchString) str)"

subsection \<open>\<^verbatim>\<open>toString\<close> of a path value\<close>

text \<open>\<^verbatim>\<open>Record<string, string | number>\<close>; numbers are integral.\<close>

datatype pathValue = PathString string | PathNumber int

fun natToString :: "nat \<Rightarrow> string" where
  "natToString n =
     (if n < 10 then [''0123456789'' ! n]
      else natToString (n div 10) @ [''0123456789'' ! (n mod 10)])"

definition numberToString :: "int \<Rightarrow> string" where
  "numberToString i = (if i < 0 then CHR ''-'' # natToString (nat (- i)) else natToString (nat i))"

fun valueToString :: "pathValue \<Rightarrow> string" where
  "valueToString (PathString s) = s"
| "valueToString (PathNumber i) = numberToString i"

subsection \<open>\<^verbatim>\<open>replacePathParams\<close> (lines 70-76)\<close>

text \<open>
  The \<^verbatim>\<open>path\<close> record is given as its entries in the order of \<^verbatim>\<open>Object.keys\<close>.
\<close>

definition replacePathParams :: "string \<Rightarrow> (string \<times> pathValue) list \<Rightarrow> string" where
  "replacePathParams url pathParams =
     foldl (\<lambda>modifiedUrl (key, v). jsReplace modifiedUrl (CHR '':'' # key) (valueToString v))
       url pathParams"

text \<open>
  A placeholder \<^verbatim>\<open>:name\<close> of a path template ends where the template ends or a
  character that cannot continue a name follows.
\<close>

definition nameChar :: "char \<Rightarrow> bool" where
  "nameChar c = (c \<in> set ''abcdefghijklmnopqrstuvwxyzABCDEFGHIJKLMNOPQRSTUVWXYZ0123456789_'')"

definition placeholderEnd :: "string \<Rightarrow> bool" where
  "placeholderEnd post = (case post of [] \<Rightarrow> True | c # cs \<Rightarrow> \<not> nameChar c)"

subsection \<open>\<^verbatim>\<open>buildAxiosConfig\<close> (lines 78-105)\<close>

text \<open>
  A property of the Axios request config is a value or the \<^verbatim>\<open>paramsSerializer\<close> function
  (\<^verbatim>\<open>qs.stringify\<close> with bracketed arrays). An object is its property list in key order.
\<close>

datatype property = Val jsvalue | ParamsSerializer

text \<open>
  The \<^verbatim>\<open>config\<close> argument after destructuring; an absent key reads as \<open>undefined\<close>.
\<close>

record ClientConfig =
  configPath :: "(string \<times> pathValue) list option"
  configHeader :: jsvalue
  configQuery :: jsvalue
  configBody :: jsvalue
  configRest :: "(string \<times> property) list"

fun methodName :: "Method \<Rightarrow> string" where
  "methodName GET = ''get''"
| "methodName POST = ''post''"
| "methodName PUT = ''put''"
| "methodName DELETE = ''delete''"
| "methodName PATCH = ''patch''"

text \<open>\<^verbatim>\<open>{ ...obj, ...configRest }\<close>: a spread key overwrites in place or is appended.\<close>

definition spread :: "(string \<times> property) list \<Rightarrow> (string \<times> property) list \<Rightarrow> (string \<times> property) list" where
  "spread obj extra = foldl (\<lambda>acc (k, v). AList.update k v acc) obj extra"

definition buildAxiosConfig :: "Method \<Rightarrow> string \<Rightarrow> ClientConfig option \<Rightarrow> (string \<times> property) list" where
  "buildAxiosConfig m pathArg config =
     (case config of
        None \<Rightarrow> [(''method'', Val (JStr (methodName m))), (''url'', Val (JStr pathArg))]
      | Some cfg \<Rightarrow>
          spread
            [(''method'', Val (JStr (methodName m))),
             (''url'', Val (JStr (case configPath cfg of
                                   Some pathParams \<Rightarrow> replacePathParams pathArg pathParams
                                 | None \<Rightarrow> pathArg))),
             (''headers'', Val (configHeader cfg)),
             (''params'', Val (configQuery cfg)),
             (''paramsSerializer'', ParamsSerializer),
             (''data'', Val (configBody cfg))]
            (configRest cfg))"


section \<open>Reading the trace\<close>

fun isSchemaParse :: "event \<Rightarrow> bool" where
  "isSchemaParse (SchemaParse sl) = True"
| "isSchemaParse _ = False"

fun isErrorHandlerCalled :: "event \<Rightarrow> bool" where
  "isErrorHandlerCalled (ErrorHandlerCalled err) = True"
| "isErrorHandlerCalled _ = False"

definition schemaParses :: "event list \<Rightarrow> event list" where
  "schemaParses t = filter isSchemaParse t"

definition errorHandlerCalls :: "event list \<Rightarrow> nat" where
  "errorHandlerCalls t = length (filter isErrorHandlerCalled t)"


fun isUserHandler :: "handler \<Rightarrow> bool" where
  "isUserHandler (UserHandler f) = True"
| "isUserHandler _ = False"

text \<open>
  A user handler that emits a JSON body, as in the README:
  \<^verbatim>\<open>(req, res) => res.status(code).json(body)\<close>.
\<close>

definition respond :: "int \<Rightarrow> jsvalue \<Rightarrow> handler" where
  "respond code body = UserHandler (\<lambda>(rq, rs). ((rq, res_json body (res_status code rs)), False))"

section \<open>The README's route\<close>

text \<open>
  \<^verbatim>\<open>GET /users/:id\<close> with a path schema coercing \<open>id\<close> to an integer, and response
  schemas for 200, 404 and \<open>default\<close>.
\<close>

definition digitOf :: "char \<Rightarrow> int option" where
  "digitOf c = map_of (zip ''0123456789'' [0, 1, 2, 3, 4, 5, 6, 7, 8, 9]) c"

fun coerceInt :: "int \<Rightarrow> string \<Rightarrow> int option" where
  "coerceInt acc [] = Some acc"
| "coerceInt acc (c # cs) =
     (case digitOf c of None \<Rightarrow> None | Some d \<Rightarrow> coerceInt (10 * acc + d) cs)"

definition idPathSchema :: schema where
  "idPathSchema v =
     (case v of
        JObj kvs \<Rightarrow>
          (case map_of kvs ''id'' of
             Some (JStr s) \<Rightarrow>
               (if s = [] then Inl zodError
                else case coerceInt 0 s of None \<Rightarrow> Inl zodError | Some i \<Rightarrow> Inr (JObj [(''id'', JNum i)]))
           | Some (JNum i) \<Rightarrow> Inr (JObj [(''id'', JNum i)])
           | _ \<Rightarrow> Inl zodError)
      | _ \<Rightarrow> Inl zodError)"

definition userSchema :: schema where
  "userSchema v =
     (case v of
        JObj kvs \<Rightarrow>
          (case (map_of kvs ''id'', map_of kvs ''name'') of
             (Some (JNum i), Some (JStr n)) \<Rightarrow> Inr (JObj [(''id'', JNum i), (''name'', JStr n)])
           | _ \<Rightarrow> Inl zodError)
      | _ \<Rightarrow> Inl zodError)"

definition messageSchema :: schema where
  "messageSchema v =
     (case v of
        JObj kvs \<Rightarrow>
          (case map_of kvs ''message'' of
             Some (JStr m) \<Rightarrow> Inr (JObj [(''message'', JStr m)])
           | _ \<Rightarrow> Inl zodError)
      | _ \<Rightarrow> Inl zodError)"

text \<open>A schema whose output is \<open>null\<close> for every input, such as a transform to \<open>null\<close>.\<close>

definition toNullSchema :: schema where
  "toNullSchema v = Inr JNull"

definition usersRoute :: RouteDescription where
  "usersRoute =
     \<lparr> request = \<lparr> request_header = None, request_cookie = None,
                   request_path = Some idPathSchema, request_query = None, request_body = None \<rparr>,
       response = (\<lambda>k. if k = Code 200 then Some userSchema
                        else if k = Code 404 then Some messageSchema
                        else if k = Code 204 then Some toNullSchema
                        else if k = Default then Some userSchema
                        else None) \<rparr>"

definition api :: Api where
  "api = (\<lambda>p. if p = ''/users/:id'' then Some (\<lambda>m. if m = GET then Some usersRoute else None) else None)"

definition sampleConfig :: RouterConfig where
  "sampleConfig =
     \<lparr> attachResponseValidator = True, skipRequestBodyValidation = False,
       errorHandler = (\<lambda>err (rq, rs). (rq, res_json err (res_status 400 rs))) \<rparr>"

definition sampleRequest :: "jsvalue \<Rightarrow> Request" where
  "sampleRequest ps =
     \<lparr> req_params = ps, req_query = JObj [], req_body = JUndefined,
       req_headers = JObj [(''accept'', JStr ''*/*'')], req_cookies = JObj [] \<rparr>"

definition freshResponse :: Response where
  "freshResponse = \<lparr> statusCode = 200, json = ExpressJson, emitted = [] \<rparr>"

definition sampleCtx :: "jsvalue \<Rightarrow> ctx" where
  "sampleCtx ps = \<lparr> req = sampleRequest ps, res = freshResponse, trace = [] \<rparr>"

text \<open>The same route with no path schema and no query schema declared.\<close>

definition undeclaredRoute :: RouteDescription where
  "undeclaredRoute = usersRoute\<lparr>request := (request usersRoute)\<lparr>request_path := None\<rparr>\<rparr>"

text \<open>The same route with a header schema that no header bag without a message passes.\<close>

definition headerRoute :: RouteDescription where
  "headerRoute = usersRoute\<lparr>request := (request usersRoute)\<lparr>request_header := Some messageSchema\<rparr>\<rparr>"

section \<open>Lemmas\<close>

lemma flatten_Arr: "flatten [Arr hs] = flatten hs"
  by (simp add: flatten_def)


lemma flatten_map_Fn: "flatten (map Fn hs) = hs"
  by (induction hs) (simp_all add: flatten_def)

lemma tryBlock_res: "tryBlock z config rd c = (r, c') \<Longrightarrow> res c' = res c"
  by (auto simp: tryBlock_def parse_def Let_def split: sum.splits if_splits option.splits)

lemma tryBlock_trace:
  "tryBlock z config rd c = (r, c') \<Longrightarrow>
     \<exists>t. trace c' = trace c @ t \<and> set t \<subseteq> {SchemaParse PathSlot, SchemaParse QuerySlot, SchemaParse BodySlot}"
  by (auto simp: tryBlock_def parse_def Let_def split: sum.splits if_splits option.splits)

lemma tryBlock_req:
  "tryBlock z config rd c = (r, c') \<Longrightarrow>
     req c' = (req c)\<lparr>req_params := req_params (req c'), req_query := req_query (req c'), req_body := req_body (req c')\<rparr>"
  by (auto simp: tryBlock_def parse_def Let_def split: sum.splits if_splits option.splits)

lemma tryBlock_headers:
  "tryBlock z config (rd\<lparr>request := (request rd)\<lparr>request_header := hs\<rparr>\<rparr>) (c\<lparr>req := (req c)\<lparr>req_headers := h\<rparr>\<rparr>)
     = (case tryBlock z config rd c of (r, c') \<Rightarrow> (r, c'\<lparr>req := (req c')\<lparr>req_headers := h\<rparr>\<rparr>))"
  by (auto simp: tryBlock_def parse_def Let_def split: sum.splits if_splits option.splits)

lemma tryBlock_header_schema:
  "tryBlock z config (rd\<lparr>request := (request rd)\<lparr>request_header := hs\<rparr>\<rparr>) c = tryBlock z config rd c"
  by (auto simp: tryBlock_def parse_def Let_def split: sum.splits if_splits option.splits)

lemma requestValidator_header_schema:
  "requestValidator z config (rd\<lparr>request := (request rd)\<lparr>request_header := hs\<rparr>\<rparr>) c = requestValidator z config rd c"
  by (simp add: requestValidator_def tryBlock_header_schema)

lemma runHandler_user_trace:
  "isUserHandler h \<Longrightarrow> runHandler z h c = (c', n) \<Longrightarrow>
     schemaParses (trace c') = schemaParses (trace c) \<and> errorHandlerCalls (trace c') = errorHandlerCalls (trace c)"
  by (cases h) (auto simp: callNext_def schemaParses_def errorHandlerCalls_def split: prod.splits bool.splits)

lemma dispatch_user_trace:
  "list_all isUserHandler hs \<Longrightarrow>
     schemaParses (trace (dispatch z hs c)) = schemaParses (trace c)
     \<and> errorHandlerCalls (trace (dispatch z hs c)) = errorHandlerCalls (trace c)"
proof (induction hs arbitrary: c)
  case Nil
  then show ?case by simp
next
  case (Cons h hs)
  obtain c' n where r: "runHandler z h c = (c', n)" by (cases "runHandler z h c")
  from Cons.prems have u: "isUserHandler h" and us: "list_all isUserHandler hs" by simp_all
  from runHandler_user_trace [OF u r] Cons.IH [OF us, of c'] r
  show ?case by (cases n) simp_all
qed





section \<open>The response validator\<close>








section \<open>The request validator\<close>



text \<open>
  C9. The request validator never uses the header schema: replacing it changes nothing.
  Its \<^verbatim>\<open>try\<close> block does not read the headers either: run on a request with other headers
  and another header schema, it ends the same way, with those headers carried through. It
  leaves the response and every part of the request other than \<^verbatim>\<open>params\<close>,
  \<^verbatim>\<open>query\<close> and \<^verbatim>\<open>body\<close> as they were, and the parses it makes are of the path
  parameters, the query and the body only. When the validator passes control on, the request
  and the response are the ones its \<^verbatim>\<open>try\<close> block left.
\<close>

theorem requestValidator_ignores_headers:
  "requestValidator z config (routeDescription\<lparr>request := (request routeDescription)\<lparr>request_header := hs\<rparr>\<rparr>) c
     = requestValidator z config routeDescription c
   \<and> tryBlock z config (routeDescription\<lparr>request := (request routeDescription)\<lparr>request_header := hs\<rparr>\<rparr>)
        (c\<lparr>req := (req c)\<lparr>req_headers := h\<rparr>\<rparr>)
     = (case tryBlock z config routeDescription c of (r, c') \<Rightarrow> (r, c'\<lparr>req := (req c')\<lparr>req_headers := h\<rparr>\<rparr>))
   \<and> (\<forall>r c'. tryBlock z config routeDescription c = (r, c') \<longrightarrow>
          req c' = (req c)\<lparr>req_params := req_params (req c'), req_query := req_query (req c'),
                           req_body := req_body (req c')\<rparr>
        \<and> res c' = res c
        \<and> (\<exists>t. trace c' = trace c @ t
               \<and> set t \<subseteq> {SchemaParse PathSlot, SchemaParse QuerySlot, SchemaParse BodySlot})
        \<and> (r = None \<longrightarrow> requestValidator z config routeDescription c
                           = (c'\<lparr>trace := trace c' @ [NextCalled]\<rparr>, True)))"
proof -
  have a: "\<forall>r c'. tryBlock z config routeDescription c = (r, c') \<longrightarrow>
          req c' = (req c)\<lparr>req_params := req_params (req c'), req_query := req_query (req c'),
                           req_body := req_body (req c')\<rparr>
        \<and> res c' = res c
        \<and> (\<exists>t. trace c' = trace c @ t
               \<and> set t \<subseteq> {SchemaParse PathSlot, SchemaParse QuerySlot, SchemaParse BodySlot})
        \<and> (r = None \<longrightarrow> requestValidator z config routeDescription c
                           = (c'\<lparr>trace := trace c' @ [NextCalled]\<rparr>, True))"
  proof (intro allI impI conjI)
    fix r c' assume t: "tryBlock z config routeDescription c = (r, c')"
    show "req c' = (req c)\<lparr>req_params := req_params (req c'), req_query := req_query (req c'),
                           req_body := req_body (req c')\<rparr>"
      using t by (rule tryBlock_req)
    show "res c' = res c" using t by (rule tryBlock_res)
    show "\<exists>t. trace c' = trace c @ t
               \<and> set t \<subseteq> {SchemaParse PathSlot, SchemaParse QuerySlot, SchemaParse BodySlot}"
      using t by (rule tryBlock_trace)
    assume "r = None"
    with t show "requestValidator z config routeDescription c = (c'\<lparr>trace := trace c' @ [NextCalled]\<rparr>, True)"
      by (simp add: requestValidator_def callNext_def)
  qed
  show ?thesis
    using a requestValidator_header_schema [of z config hs routeDescription c]
      tryBlock_headers [of z config hs routeDescription h c]
    by blast
qed

text \<open>
  A request to \<^verbatim>\<open>/users/7\<close> whose headers fail the declared header schema still passes.
\<close>

theorem requestValidator_ignores_headers_witness:
  "tryBlock zod sampleConfig usersRoute (sampleCtx (JObj [(''id'', JStr ''7'')]))
     = (None, \<lparr> req = sampleRequest (JObj [(''id'', JNum 7)]), res = freshResponse,
                 trace = [SchemaParse PathSlot, SchemaParse QuerySlot, SchemaParse BodySlot] \<rparr>)
   \<and> messageSchema (req_headers (sampleRequest (JObj [(''id'', JStr ''7'')]))) = Inl zodError
   \<and> requestValidator zod sampleConfig headerRoute (sampleCtx (JObj [(''id'', JStr ''7'')]))
     = (\<lparr> req = sampleRequest (JObj [(''id'', JNum 7)]), res = freshResponse,
          trace = [SchemaParse PathSlot, SchemaParse QuerySlot, SchemaParse BodySlot, NextCalled] \<rparr>, True)"
proof -
  let ?c = "sampleCtx (JObj [(''id'', JStr ''7'')])"
  let ?c' = "\<lparr> req = sampleRequest (JObj [(''id'', JNum 7)]), res = freshResponse,
               trace = [SchemaParse PathSlot, SchemaParse QuerySlot, SchemaParse BodySlot] \<rparr>"
  have t: "tryBlock zod sampleConfig usersRoute ?c = (None, ?c')"
    by (simp add: tryBlock_def parse_def sampleCtx_def sampleRequest_def usersRoute_def
        idPathSchema_def digitOf_def sampleConfig_def zod_def)
  note T = requestValidator_ignores_headers [where z = zod and config = sampleConfig
      and routeDescription = usersRoute and hs = "Some messageSchema" and c = ?c and h = JNull]
  from T have e1: "requestValidator zod sampleConfig
        (usersRoute\<lparr>request := (request usersRoute)\<lparr>request_header := Some messageSchema\<rparr>\<rparr>) ?c
      = requestValidator zod sampleConfig usersRoute ?c"
    by blast
  from T t have e2: "requestValidator zod sampleConfig usersRoute ?c
      = (?c'\<lparr>trace := trace ?c' @ [NextCalled]\<rparr>, True)"
    by blast
  have m: "messageSchema (req_headers (sampleRequest (JObj [(''id'', JStr ''7'')]))) = Inl zodError"
    by (simp add: messageSchema_def sampleRequest_def)
  show ?thesis using t m e1 e2 by (simp add: headerRoute_def)
qed

text \<open>
  C2 (what the code does). On a route that declares neither a path schema nor a query
  schema, a request whose path-parameter bag and query bag each carry a key is not
  rejected: \<^verbatim>\<open>z.object({}).parse\<close> strips the undeclared keys, both bags are replaced by
  the empty object, the error handler is not called and \<^verbatim>\<open>next\<close> is.
\<close>

theorem requestValidator_undeclared_keys_pass:
  "requestValidator zod sampleConfig undeclaredRoute
     \<lparr> req = \<lparr> req_params = JObj [(''id'', JStr ''abc'')], req_query = JObj [(''debug'', JStr ''1'')],
               req_body = JUndefined, req_headers = JObj [], req_cookies = JObj [] \<rparr>,
       res = freshResponse, trace = [] \<rparr>
   = (\<lparr> req = \<lparr> req_params = JObj [], req_query = JObj [],
                req_body = JUndefined, req_headers = JObj [], req_cookies = JObj [] \<rparr>,
        res = freshResponse,
        trace = [SchemaParse PathSlot, SchemaParse QuerySlot, SchemaParse BodySlot, NextCalled] \<rparr>, True)"
  by (simp add: requestValidator_def tryBlock_def parse_def callNext_def undeclaredRoute_def
      usersRoute_def sampleConfig_def zod_def)

section \<open>The response validator at emit time\<close>



section \<open>Registration\<close>

text \<open>
  C4. For a path and method with no entry in the route table, the verb method hands the
  original registrar the user's handlers alone, as one array; the route registered holds
  exactly those handlers in their order, so no validator is added. When they are user
  handlers, running the registered chain on a request makes no schema parse.
\<close>

theorem routerMethod_absent_route:
  assumes "lookupRoute apiDef pathArg m = None"
  shows "registrarArgs apiDef config m pathArg handlers = [Arr handlers]
       \<and> routerMethod apiDef config m pathArg handlers r = r @ [(m, pathArg, flatten handlers)]
       \<and> routerMethod apiDef config m pathArg (map Fn hs) r = r @ [(m, pathArg, hs)]
       \<and> (list_all isUserHandler (flatten handlers) \<longrightarrow>
            schemaParses (trace (dispatch z (flatten (registrarArgs apiDef config m pathArg handlers)) c))
              = schemaParses (trace c))"
proof -
  have a: "registrarArgs apiDef config m pathArg hs' = [Arr hs']" for hs'
    using assms by (simp add: registrarArgs_def)
  have b: "routerMethod apiDef config m pathArg hs' r = r @ [(m, pathArg, flatten hs')]" for hs'
    by (simp add: routerMethod_def originalHandlerRegistrar_def a flatten_Arr)
  have c: "schemaParses (trace (dispatch z (flatten (registrarArgs apiDef config m pathArg handlers)) c))
              = schemaParses (trace c)" if "list_all isUserHandler (flatten handlers)"
    using dispatch_user_trace [OF that] by (simp add: a flatten_Arr)
  show ?thesis using a [of handlers] b [of handlers] b [of "map Fn hs"] c
    by (simp add: flatten_map_Fn)
qed

theorem routerMethod_absent_route_witness:
  "lookupRoute api ''/health'' GET = None
   \<and> routerMethod api sampleConfig GET ''/health'' [Fn (respond 200 (JStr ''ok''))] []
       = [(GET, ''/health'', [respond 200 (JStr ''ok'')])]
   \<and> list_all isUserHandler (flatten [Fn (respond 200 (JStr ''ok''))])
   \<and> schemaParses (trace (dispatch zod
         (flatten (registrarArgs api sampleConfig GET ''/health'' [Fn (respond 200 (JStr ''ok''))]))
         (sampleCtx (JObj [(''id'', JStr ''abc'')])))) = []"
proof -
  have h: "lookupRoute api ''/health'' GET = None"
    by (simp add: lookupRoute_def api_def)
  have u: "list_all isUserHandler (flatten [Fn (respond 200 (JStr ''ok''))])"
    by (simp add: flatten_def respond_def)
  note T = routerMethod_absent_route [OF h, where config = sampleConfig
      and handlers = "[Fn (respond 200 (JStr ''ok''))]" and r = "[]"
      and hs = "[respond 200 (JStr ''ok'')]" and z = zod
      and c = "sampleCtx (JObj [(''id'', JStr ''abc'')])"]
  from T have a: "routerMethod api sampleConfig GET ''/health'' [Fn (respond 200 (JStr ''ok''))] []
       = [] @ [(GET, ''/health'', flatten [Fn (respond 200 (JStr ''ok''))])]"
    by blast
  from T u have b: "schemaParses (trace (dispatch zod
         (flatten (registrarArgs api sampleConfig GET ''/health'' [Fn (respond 200 (JStr ''ok''))]))
         (sampleCtx (JObj [(''id'', JStr ''abc'')]))))
       = schemaParses (trace (sampleCtx (JObj [(''id'', JStr ''abc'')])))"
    by blast
  have a': "routerMethod api sampleConfig GET ''/health'' [Fn (respond 200 (JStr ''ok''))] []
       = [(GET, ''/health'', [respond 200 (JStr ''ok'')])]"
    by (simp only: a) (simp add: flatten_def)
  have b': "schemaParses (trace (dispatch zod
         (flatten (registrarArgs api sampleConfig GET ''/health'' [Fn (respond 200 (JStr ''ok''))]))
         (sampleCtx (JObj [(''id'', JStr ''abc'')])))) = []"
    by (simp only: b) (simp add: sampleCtx_def schemaParses_def)
  show ?thesis using h u a' b' by blast
qed

text \<open>
  C6. For a path and method with an entry in the route table, the verb method hands the
  original registrar the request validator, then the response validator when
  \<^verbatim>\<open>attachResponseValidator\<close> is set and only then, then the user's handlers; the route
  registered is that sequence with the user's handlers in their order.
\<close>

theorem routerMethod_present_route:
  assumes "lookupRoute apiDef pathArg m = Some routeDescription"
  shows "registrarArgs apiDef config m pathArg handlers
           = (if attachResponseValidator config
              then [Fn (RequestValidator config routeDescription), Fn (ResponseValidator routeDescription), Arr handlers]
              else [Fn (RequestValidator config routeDescription), Arr handlers])
       \<and> routerMethod apiDef config m pathArg handlers r
           = r @ [(m, pathArg,
                   (if attachResponseValidator config
                    then [RequestValidator config routeDescription, ResponseValidator routeDescription]
                    else [RequestValidator config routeDescription]) @ flatten handlers)]
       \<and> routerMethod apiDef config m pathArg (map Fn hs) r
           = r @ [(m, pathArg,
                   (if attachResponseValidator config
                    then [RequestValidator config routeDescription, ResponseValidator routeDescription]
                    else [RequestValidator config routeDescription]) @ hs)]"
proof -
  have a: "registrarArgs apiDef config m pathArg hs'
           = (if attachResponseValidator config
              then [Fn (RequestValidator config routeDescription), Fn (ResponseValidator routeDescription), Arr hs']
              else [Fn (RequestValidator config routeDescription), Arr hs'])" for hs'
    using assms by (simp add: registrarArgs_def)
  have b: "routerMethod apiDef config m pathArg hs' r
           = r @ [(m, pathArg,
                   (if attachResponseValidator config
                    then [RequestValidator config routeDescription, ResponseValidator routeDescription]
                    else [RequestValidator config routeDescription]) @ flatten hs')]" for hs'
    by (simp add: routerMethod_def originalHandlerRegistrar_def a flatten_def)
  show ?thesis using a [of handlers] b [of handlers] b [of "map Fn hs"]
    by (simp add: flatten_map_Fn)
qed

theorem routerMethod_present_route_witness:
  "lookupRoute api ''/users/:id'' GET = Some usersRoute
   \<and> routerMethod api sampleConfig GET ''/users/:id'' [Fn (respond 200 (JStr ''a'')), Fn (respond 404 (JStr ''b''))] []
       = [(GET, ''/users/:id'',
           [RequestValidator sampleConfig usersRoute, ResponseValidator usersRoute,
            respond 200 (JStr ''a''), respond 404 (JStr ''b'')])]
   \<and> routerMethod api (sampleConfig\<lparr>attachResponseValidator := False\<rparr>) GET ''/users/:id''
        [Fn (respond 200 (JStr ''a'')), Fn (respond 404 (JStr ''b''))] []
       = [(GET, ''/users/:id'',
           [RequestValidator (sampleConfig\<lparr>attachResponseValidator := False\<rparr>) usersRoute,
            respond 200 (JStr ''a''), respond 404 (JStr ''b'')])]"
proof -
  have h: "lookupRoute api ''/users/:id'' GET = Some usersRoute"
    by (simp add: lookupRoute_def api_def)
  have t: "attachResponseValidator sampleConfig" by (simp add: sampleConfig_def)
  from routerMethod_present_route [OF h, of sampleConfig "[Fn (respond 200 (JStr ''a'')), Fn (respond 404 (JStr ''b''))]" "[]"]
    routerMethod_present_route [OF h, of "sampleConfig\<lparr>attachResponseValidator := False\<rparr>"
      "[Fn (respond 200 (JStr ''a'')), Fn (respond 404 (JStr ''b''))]" "[]"]
  show ?thesis using h t by (simp add: flatten_def)
qed


section \<open>The request builder\<close>

lemma indexOf_None: "indexOf s p = None \<longleftrightarrow> \<not> sublist p s"
  by (induction s) (auto simp: sublist_Cons_right)

lemma indexOf_prefix: "prefix p s \<Longrightarrow> indexOf s p = Some 0"
  by (cases s) auto

lemma getSubstitution_plain:
  "CHR ''$'' \<notin> set t \<Longrightarrow> getSubstitution matched str pos t = t"
  by (induction matched str pos t rule: getSubstitution.induct) auto

text \<open>
  The occurrence of \<open>p\<close> after \<open>pre\<close> is the first one when \<open>p\<close> does not occur in
  \<open>pre\<close> followed by all but the last character of \<open>p\<close>.
\<close>

lemma indexOf_first:
  "\<not> sublist p (pre @ butlast p) \<Longrightarrow> indexOf (pre @ p @ post) p = Some (length pre)"
proof (induction pre)
  case Nil
  then show ?case by (simp add: indexOf_prefix)
next
  case (Cons c pre)
  have np: "\<not> prefix p (c # pre @ p @ post)"
  proof
    assume "prefix p (c # pre @ p @ post)"
    then have "prefix p ((c # pre @ butlast p) @ (drop (length p - 1) p @ post))"
      by (metis append.assoc append_Cons append_take_drop_id butlast_conv_take)
    moreover have "length p \<le> length (c # pre @ butlast p)" by simp
    ultimately have "prefix p (c # pre @ butlast p)"
      by (metis prefix_length_prefix prefix_append prefixI prefix_order.order_refl)
    then show False using Cons.prems by auto
  qed
  have "\<not> sublist p (pre @ butlast p)"
    using Cons.prems by (auto simp: sublist_Cons_right)
  from Cons.IH [OF this] np show ?case by simp
qed

lemma jsReplace_absent: "\<not> sublist p s \<Longrightarrow> jsReplace s p v = s"
  using indexOf_None [of s p] by (simp add: jsReplace_def)

lemma jsReplace_first:
  "\<not> sublist p (pre @ butlast p) \<Longrightarrow> CHR ''$'' \<notin> set v \<Longrightarrow>
     jsReplace (pre @ p @ post) p v = pre @ v @ post"
  by (simp add: jsReplace_def indexOf_first getSubstitution_plain)

lemma replacePathParams_Cons:
  "replacePathParams url ((key, v) # rest) = replacePathParams (replacePathParams url [(key, v)]) rest"
  by (simp add: replacePathParams_def)

lemma replacePathParams_unchanged:
  "\<forall>(k, w) \<in> set pathParams. \<not> sublist (CHR '':'' # k) url \<Longrightarrow> replacePathParams url pathParams = url"
  by (induction pathParams) (auto simp: replacePathParams_def jsReplace_absent)

text \<open>
  C3 as stated fails: a second occurrence of the placeholder stays; a placeholder with no
  key of its own is changed when a key is a prefix of its name; and a value holding a
  replacement pattern is not inserted as it is.
\<close>

theorem replacePathParams_counterexample:
  "replacePathParams ''/:id/:id'' [(''id'', PathNumber 7)] = ''/7/:id''
   \<and> replacePathParams ''/:idx'' [(''id'', PathNumber 7)] = ''/7x''
   \<and> replacePathParams ''/users/:id'' [(''id'', PathString ''$&'')] = ''/users/:id''"
  by (simp add: replacePathParams_def jsReplace_def numberToString_def)

text \<open>
  C3, amended. The keys are taken in order, each on the URL the earlier ones left. For one
  key, when the first occurrence of the text \<open>:key\<close> in the URL is a whole placeholder
  and the stringified value holds no dollar sign, that occurrence alone is replaced by the
  stringified value: the text before and after it, later occurrences included, is kept.
  A URL in which \<open>:key\<close> occurs for no key of the map is returned unchanged.
\<close>

theorem replacePathParams_first_occurrence:
  "(\<not> sublist (CHR '':'' # key) (pre @ butlast (CHR '':'' # key)) \<and> placeholderEnd post
      \<and> CHR ''$'' \<notin> set (valueToString v) \<longrightarrow>
      replacePathParams (pre @ (CHR '':'' # key) @ post) [(key, v)] = pre @ valueToString v @ post)
   \<and> replacePathParams url ((key, v) # rest) = replacePathParams (replacePathParams url [(key, v)]) rest
   \<and> ((\<forall>(k, w) \<in> set pathParams. \<not> sublist (CHR '':'' # k) url) \<longrightarrow> replacePathParams url pathParams = url)"
proof -
  have a: "replacePathParams (pre @ (CHR '':'' # key) @ post) [(key, v)] = pre @ valueToString v @ post"
    if "\<not> sublist (CHR '':'' # key) (pre @ butlast (CHR '':'' # key))" and "CHR ''$'' \<notin> set (valueToString v)"
    using jsReplace_first [OF that, of post] by (simp add: replacePathParams_def)
  show ?thesis
    using a replacePathParams_Cons [of url key v rest] replacePathParams_unchanged [of pathParams url]
    by blast
qed

theorem replacePathParams_first_occurrence_witness:
  "\<not> sublist (CHR '':'' # ''id'') (''/a/'' @ butlast (CHR '':'' # ''id''))
   \<and> placeholderEnd ''/b/:id''
   \<and> CHR ''$'' \<notin> set (valueToString (PathNumber 7))
   \<and> replacePathParams (''/a/'' @ (CHR '':'' # ''id'') @ ''/b/:id'') [(''id'', PathNumber 7)] = ''/a/7/b/:id''
   \<and> replacePathParams ''/users'' [(''id'', PathNumber 7), (''name'', PathString ''x'')] = ''/users''"
proof -
  have h1: "\<not> sublist (CHR '':'' # ''id'') (''/a/'' @ butlast (CHR '':'' # ''id''))"
    by (simp add: sublist_Cons_right)
  have h2: "CHR ''$'' \<notin> set (valueToString (PathNumber 7))"
    by (simp add: numberToString_def)
  have h3: "\<forall>(k, w) \<in> set [(''id'', PathNumber 7), (''name'', PathString ''x'')]. \<not> sublist (CHR '':'' # k) ''/users''"
    by (simp add: sublist_Cons_right)
  have h4: "placeholderEnd ''/b/:id''"
    by (simp add: placeholderEnd_def nameChar_def)
  note t = replacePathParams_first_occurrence [of "''id''" "''/a/''" "''/b/:id''" "PathNumber 7" "''/users''"
      "[(''name'', PathString ''x'')]" "[(''id'', PathNumber 7), (''name'', PathString ''x'')]"]
  from t h1 h2 h4 have a: "replacePathParams (''/a/'' @ (CHR '':'' # ''id'') @ ''/b/:id'') [(''id'', PathNumber 7)]
      = ''/a/'' @ valueToString (PathNumber 7) @ ''/b/:id''"
    by blast
  from t h3 have b: "replacePathParams ''/users'' [(''id'', PathNumber 7), (''name'', PathString ''x'')] = ''/users''"
    by blast
  have c: "''/a/'' @ valueToString (PathNumber 7) @ ''/b/:id'' = ''/a/7/b/:id''"
    by (simp add: numberToString_def)
  show ?thesis using h1 h2 h4 a b c by simp
qed

text \<open>
  C8. With no config the builder returns exactly the method and the path template as the
  URL, for every method and template. With the config \<^verbatim>\<open>{path: {id: 7}}\<close> and the template
  \<^verbatim>\<open>/users/:id\<close> the URL is \<^verbatim>\<open>/users/7\<close>.
\<close>

theorem buildAxiosConfig_examples:
  "buildAxiosConfig m pathTemplate None
     = [(''method'', Val (JStr (methodName m))), (''url'', Val (JStr pathTemplate))]
   \<and> buildAxiosConfig m ''/users/:id''
        (Some \<lparr> configPath = Some [(''id'', PathNumber 7)], configHeader = JUndefined,
                 configQuery = JUndefined, configBody = JUndefined, configRest = [] \<rparr>)
     = [(''method'', Val (JStr (methodName m))), (''url'', Val (JStr ''/users/7'')),
        (''headers'', Val JUndefined), (''params'', Val JUndefined),
        (''paramsSerializer'', ParamsSerializer), (''data'', Val JUndefined)]"
  by (simp add: buildAxiosConfig_def spread_def replacePathParams_def jsReplace_def numberToString_def)

end
